theory Spec2Isabelle
  imports Complex_Main "HOL-Library.Word" "HOL-Library.Monad_Syntax"
begin

section \<open>Colour-theory helpers of \<open>src/app/api/score/route.ts\<close>\<close>

text \<open>
  JavaScript numbers are modelled as exact reals: every arithmetic operation of the
  source is the corresponding operation on \<^typ>\<open>real\<close>, so rounding error of IEEE
  doubles is outside the model. Division by zero, which in the source yields a
  non-finite value, is made explicit separately by \<open>js_div\<close> below.
\<close>

type_synonym hsv = "real \<times> real \<times> real"

type_synonym rgb = "real \<times> real \<times> real"

text \<open>
  \<open>rgbToHsv\<close> (route.ts, lines 9-24). The \<open>switch (max)\<close> compares with strict
  equality against \<open>r\<close>, \<open>g\<close>, \<open>b\<close> in that order; when no case matches, \<open>h\<close>
  keeps its initial value 0 and is still divided by 6.
\<close>

definition rgbToHsv :: "real \<Rightarrow> real \<Rightarrow> real \<Rightarrow> hsv" where
  "rgbToHsv r0 g0 b0 =
     (let r = r0 / 255; g = g0 / 255; b = b0 / 255;
          mx = max (max r g) b; mn = min (min r g) b;
          v = mx;
          d = mx - mn;
          s = (if mx = 0 then 0 else d / mx);
          h = (if mx \<noteq> mn
               then (if mx = r then (g - b) / d + (if g < b then 6 else 0)
                     else if mx = g then (b - r) / d + 2
                     else if mx = b then (r - g) / d + 4
                     else 0) / 6
               else 0)
      in (h * 360, s * 100, v * 100))"

text \<open>\<open>calculateHueScore\<close> (lines 27-32).\<close>

definition calculateHueScore :: "real \<Rightarrow> real \<Rightarrow> real" where
  "calculateHueScore h1 h2 =
     (let diff = min \<bar>h1 - h2\<bar> (360 - \<bar>h1 - h2\<bar>)
      in if diff \<le> 30 then 100
         else if diff \<ge> 150 \<and> diff \<le> 210 then 90
         else max 0 (60 - diff))"

text \<open>\<open>calculateValueScore\<close> (lines 35-37).\<close>

definition calculateValueScore :: "real \<Rightarrow> real \<Rightarrow> real" where
  "calculateValueScore v1 v2 = (\<bar>v1 - v2\<bar> / 100) * 100"

text \<open>\<open>calculateSaturationScore\<close> (lines 40-42).\<close>

definition calculateSaturationScore :: "real \<Rightarrow> real \<Rightarrow> real" where
  "calculateSaturationScore s1 s2 = 100 - (\<bar>s1 - s2\<bar> / 100) * 100"


section \<open>The request handler \<open>POST\<close>\<close>

subsection \<open>Requests, responses and thrown errors\<close>

text \<open>
  A thrown JavaScript value. \<open>TypeError\<close> is what the language itself throws
  (destructuring \<open>undefined\<close>, calling a missing method); \<open>LibraryError\<close> carries the
  message of an error thrown by a collaborator (the request parser, the image decoder,
  the clustering routine).
\<close>

datatype js_error = TypeError | LibraryError string

type_synonym byte = "8 word"

text \<open>A form entry is a \<open>File\<close> (its bytes) or a string.\<close>

datatype form_entry = FileEntry "byte list" | StringEntry string

type_synonym form_data = "(string \<times> form_entry) list"

text \<open>
  A request is modelled by what \<open>await request.formData()\<close> does: it rejects with an
  error, or resolves to the list of form entries.
\<close>

datatype request = Request (formData: "js_error + form_data")

text \<open>\<open>formData.get(name)\<close>: the first entry of that name, or \<open>null\<close>.\<close>

definition form_get :: "form_data \<Rightarrow> string \<Rightarrow> form_entry option" where
  "form_get form name = map_of form name"

text \<open>\<open>!file\<close>: \<open>null\<close> and the empty string are falsy, a \<open>File\<close> object is truthy.\<close>

fun is_falsy :: "form_entry option \<Rightarrow> bool" where
  "is_falsy None = True"
| "is_falsy (Some (StringEntry s)) = (s = [])"
| "is_falsy (Some (FileEntry bs)) = False"

text \<open>
  \<open>file.arrayBuffer()\<close>: a string has no such method, so the call throws a
  \<open>TypeError\<close>.
\<close>

fun arrayBuffer :: "form_entry option \<Rightarrow> js_error + byte list" where
  "arrayBuffer (Some (FileEntry bs)) = Inr bs"
| "arrayBuffer (Some (StringEntry s)) = Inl TypeError"
| "arrayBuffer None = Inl TypeError"

record ScoreResult =
  score :: real
  colors :: "(int \<times> int \<times> int) list"

datatype json_body = ScoreBody ScoreResult | ErrorBody string

datatype response = Response (status: nat) (body: json_body)

subsection \<open>External collaborators\<close>

text \<open>
  What \<open>sharp(...).resize(100, 100).raw().toBuffer({ resolveWithObject: true })\<close>
  resolves to: the raw buffer and \<open>info.channels\<close>.
\<close>

record raw_image =
  data :: "byte list"
  channels :: nat

text \<open>
  One entry of \<open>pixels\<close>: three reads of the buffer, each \<open>undefined\<close> (\<open>None\<close>)
  when the index is past the end.
\<close>

type_synonym pixel = "byte option \<times> byte option \<times> byte option"

text \<open>The options object passed to \<open>kmeans\<close>; the handler passes \<open>{ seed: 42 }\<close>.\<close>

record kmeans_options =
  seed :: "nat option"

text \<open>
  The two libraries are parameters of the model. Each may throw. The centroids of
  \<open>kmeans\<close> have the dimension of the points, which the handler always builds with
  three components.
\<close>

record collaborators =
  sharp_raw :: "byte list \<Rightarrow> js_error + raw_image"
  kmeans :: "pixel list \<Rightarrow> nat \<Rightarrow> kmeans_options \<Rightarrow> js_error + rgb list"

subsection \<open>Step 1: pixel extraction (lines 62-65)\<close>

definition buf_at :: "byte list \<Rightarrow> nat \<Rightarrow> byte option" where
  "buf_at buf i = (if i < length buf then Some (buf ! i) else None)"

text \<open>
  \<open>for (let i = 0; i < data.length; i += info.channels) pixels.push(...)\<close>.
  With \<open>channels = 0\<close> and a non-empty buffer the loop never ends; the result is then
  \<open>None\<close>.
\<close>

partial_function (option) extract_loop ::
  "byte list \<Rightarrow> nat \<Rightarrow> nat \<Rightarrow> pixel list \<Rightarrow> pixel list option" where
  [code]: "extract_loop buf ch i pixels =
     (if i < length buf
      then extract_loop buf ch (i + ch)
             (pixels @ [(buf_at buf i, buf_at buf (i + 1), buf_at buf (i + 2))])
      else Some pixels)"

definition extractPixels :: "raw_image \<Rightarrow> pixel list option" where
  "extractPixels img = extract_loop (data img) (channels img) 0 []"

subsection \<open>Step 4: pair enumeration (lines 77-84)\<close>

text \<open>\<open>Array.from({ length: k }, (_, i) => i)\<close>.\<close>

definition colorIndices :: "nat \<Rightarrow> nat list" where
  "colorIndices k = [0..<k]"

function pairs_inner ::
  "nat list \<Rightarrow> nat \<Rightarrow> nat \<Rightarrow> (nat \<times> nat) list \<Rightarrow> (nat \<times> nat) list" where
  "pairs_inner idx i j colorPairs =
     (if j < length idx
      then pairs_inner idx i (j + 1) (colorPairs @ [(idx ! i, idx ! j)])
      else colorPairs)"
  by pat_completeness auto
termination
  by (relation "measure (\<lambda>(idx, i, j, colorPairs). length idx - j)") auto

function pairs_outer ::
  "nat list \<Rightarrow> nat \<Rightarrow> (nat \<times> nat) list \<Rightarrow> (nat \<times> nat) list" where
  "pairs_outer idx i colorPairs =
     (if i < length idx
      then pairs_outer idx (i + 1) (pairs_inner idx i (i + 1) colorPairs)
      else colorPairs)"
  by pat_completeness auto
termination
  by (relation "measure (\<lambda>(idx, i, colorPairs). length idx - i)") auto

definition colorPairs :: "nat \<Rightarrow> (nat \<times> nat) list" where
  "colorPairs k = pairs_outer (colorIndices k) 0 []"

subsection \<open>Steps 3 to 5: scoring (lines 73-110)\<close>

text \<open>The named weights of line 76.\<close>

definition weights_hue :: real where "weights_hue = 0.5"

definition weights_value :: real where "weights_value = 0.3"

definition weights_saturation :: real where "weights_saturation = 0.2"

text \<open>The body of the \<open>forEach\<close> callback (lines 96-100), for the two looked-up colours.\<close>

fun pairScore :: "hsv \<Rightarrow> hsv \<Rightarrow> real" where
  "pairScore (h1, s1, v1) (h2, s2, v2) =
     (let hueScore = calculateHueScore h1 h2;
          valueScore = calculateValueScore v1 v2;
          saturationScore = calculateSaturationScore s1 s2
      in (hueScore * weights_hue) + (valueScore * weights_value)
         + (saturationScore * weights_saturation))"

text \<open>
  \<open>dominantHsvs[i]\<close> is \<open>undefined\<close> past the end; destructuring it throws a
  \<open>TypeError\<close>.
\<close>

definition hsv_at :: "hsv list \<Rightarrow> nat \<Rightarrow> js_error + hsv" where
  "hsv_at dominantHsvs i =
     (if i < length dominantHsvs then Inr (dominantHsvs ! i) else Inl TypeError)"

text \<open>\<open>colorPairs.forEach(...)\<close> with the running \<open>totalScore\<close>.\<close>

fun accumulate :: "hsv list \<Rightarrow> (nat \<times> nat) list \<Rightarrow> real \<Rightarrow> js_error + real" where
  "accumulate dominantHsvs [] totalScore = Inr totalScore"
| "accumulate dominantHsvs (pair # rest) totalScore =
     (case hsv_at dominantHsvs (fst pair) of
        Inl e \<Rightarrow> Inl e
      | Inr c1 \<Rightarrow>
          (case hsv_at dominantHsvs (snd pair) of
             Inl e \<Rightarrow> Inl e
           | Inr c2 \<Rightarrow> accumulate dominantHsvs rest (totalScore + pairScore c1 c2)))"

text \<open>\<open>finalScore = totalScore / colorPairs.length\<close> (line 104).\<close>

definition finalScore :: "hsv list \<Rightarrow> (nat \<times> nat) list \<Rightarrow> js_error + real" where
  "finalScore dominantHsvs pairs =
     (case accumulate dominantHsvs pairs 0 of
        Inl e \<Rightarrow> Inl e
      | Inr totalScore \<Rightarrow> Inr (totalScore / real (length pairs)))"

text \<open>\<open>Math.round\<close>: the nearest integer, a tie going up.\<close>

definition math_round :: "real \<Rightarrow> int" where
  "math_round x = \<lfloor>x + 1 / 2\<rfloor>"

fun roundRgb :: "rgb \<Rightarrow> int \<times> int \<times> int" where
  "roundRgb (r, g, b) = (math_round r, math_round g, math_round b)"

definition scoreCentroids :: "nat \<Rightarrow> rgb list \<Rightarrow> js_error + response" where
  "scoreCentroids k dominantRgbs =
     (let dominantHsvs = map (\<lambda>(r, g, b). rgbToHsv r g b) dominantRgbs;
          pairs = colorPairs k
      in if length pairs = 0
         then Inr (Response 200 (ScoreBody
                \<lparr>score = 100, colors = map roundRgb dominantRgbs\<rparr>))
         else (case finalScore dominantHsvs pairs of
                 Inl e \<Rightarrow> Inl e
               | Inr final \<Rightarrow>
                   Inr (Response 200 (ScoreBody
                     \<lparr>score = real_of_int (math_round (final * 100)) / 100,
                      colors = map roundRgb dominantRgbs\<rparr>))))"

subsection \<open>The whole handler (lines 47-115)\<close>

text \<open>Step 2 onwards: clustering with the fixed seed, then scoring.\<close>

definition analyzePixels ::
  "(pixel list \<Rightarrow> nat \<Rightarrow> kmeans_options \<Rightarrow> js_error + rgb list) \<Rightarrow> nat \<Rightarrow> pixel list
     \<Rightarrow> js_error + response" where
  "analyzePixels km k pixels =
     (case km pixels k \<lparr>seed = Some 42\<rparr> of
        Inl e \<Rightarrow> Inl e
      | Inr dominantRgbs \<Rightarrow> scoreCentroids k dominantRgbs)"

text \<open>From the decoded buffer onwards. \<open>None\<close>: the extraction loop does not end.\<close>

definition analyzeImage :: "collaborators \<Rightarrow> nat \<Rightarrow> raw_image \<Rightarrow> (js_error + response) option" where
  "analyzeImage env k img =
     (case extractPixels img of
        None \<Rightarrow> None
      | Some pixels \<Rightarrow> Some (analyzePixels (kmeans env) k pixels))"

text \<open>The body of the \<open>try\<close> block; \<open>Inl\<close> is a thrown error.\<close>

definition try_block :: "collaborators \<Rightarrow> nat \<Rightarrow> request \<Rightarrow> (js_error + response) option" where
  "try_block env k req =
     (case formData req of
        Inl e \<Rightarrow> Some (Inl e)
      | Inr form \<Rightarrow>
          (let file = form_get form ''file''
           in if is_falsy file
              then Some (Inr (Response 400 (ErrorBody ''File is required.'')))
              else (case arrayBuffer file of
                      Inl e \<Rightarrow> Some (Inl e)
                    | Inr imageBuffer \<Rightarrow>
                        (case sharp_raw env imageBuffer of
                           Inl e \<Rightarrow> Some (Inl e)
                         | Inr img \<Rightarrow> analyzeImage env k img))))"

text \<open>The \<open>catch\<close> clause (lines 112-115): the error is logged and dropped.\<close>

definition catch_block :: "js_error \<Rightarrow> response" where
  "catch_block error = Response 500 (ErrorBody ''Failed to process image.'')"

text \<open>The handler with the number of colours as a parameter, and with \<open>k = 3\<close> (line 68).\<close>

definition POST_k :: "collaborators \<Rightarrow> nat \<Rightarrow> request \<Rightarrow> response option" where
  "POST_k env k req = map_option (case_sum catch_block id) (try_block env k req)"

definition POST :: "collaborators \<Rightarrow> request \<Rightarrow> response option" where
  "POST env req = POST_k env 3 req"


section \<open>Division made explicit\<close>

text \<open>
  In the source a division by zero does not throw: it yields \<open>NaN\<close> or an infinity.
  \<open>js_div\<close> makes that visible, \<open>None\<close> standing for such a non-finite result. The
  definitions below repeat the arithmetic of the handler with every division of the
  source going through \<open>js_div\<close>, so that their result is \<open>None\<close> as soon as one
  division with a zero divisor is evaluated.
\<close>

definition js_div :: "real \<Rightarrow> real \<Rightarrow> real option" where
  "js_div a b = (if b = 0 then None else Some (a / b))"

definition rgbToHsv_checked :: "real \<Rightarrow> real \<Rightarrow> real \<Rightarrow> hsv option" where
  "rgbToHsv_checked r0 g0 b0 =
     do {
       r \<leftarrow> js_div r0 255;
       g \<leftarrow> js_div g0 255;
       b \<leftarrow> js_div b0 255;
       let mx = max (max r g) b;
       let mn = min (min r g) b;
       let v = mx;
       let d = mx - mn;
       s \<leftarrow> (if mx = 0 then Some 0 else js_div d mx);
       h \<leftarrow> (if mx \<noteq> mn
             then do {
               h6 \<leftarrow> (if mx = r then do { q \<leftarrow> js_div (g - b) d; Some (q + (if g < b then 6 else 0)) }
                      else if mx = g then do { q \<leftarrow> js_div (b - r) d; Some (q + 2) }
                      else if mx = b then do { q \<leftarrow> js_div (r - g) d; Some (q + 4) }
                      else Some 0);
               js_div h6 6
             }
             else Some 0);
       Some (h * 360, s * 100, v * 100)
     }"

definition calculateValueScore_checked :: "real \<Rightarrow> real \<Rightarrow> real option" where
  "calculateValueScore_checked v1 v2 = do { q \<leftarrow> js_div \<bar>v1 - v2\<bar> 100; Some (q * 100) }"

definition calculateSaturationScore_checked :: "real \<Rightarrow> real \<Rightarrow> real option" where
  "calculateSaturationScore_checked s1 s2 =
     do { q \<leftarrow> js_div \<bar>s1 - s2\<bar> 100; Some (100 - q * 100) }"

fun pairScore_checked :: "hsv \<Rightarrow> hsv \<Rightarrow> real option" where
  "pairScore_checked (h1, s1, v1) (h2, s2, v2) =
     do {
       let hueScore = calculateHueScore h1 h2;
       valueScore \<leftarrow> calculateValueScore_checked v1 v2;
       saturationScore \<leftarrow> calculateSaturationScore_checked s1 s2;
       Some ((hueScore * weights_hue) + (valueScore * weights_value)
             + (saturationScore * weights_saturation))
     }"

fun accumulate_checked ::
  "hsv list \<Rightarrow> (nat \<times> nat) list \<Rightarrow> real \<Rightarrow> (js_error + real) option" where
  "accumulate_checked dominantHsvs [] totalScore = Some (Inr totalScore)"
| "accumulate_checked dominantHsvs (pair # rest) totalScore =
     (case hsv_at dominantHsvs (fst pair) of
        Inl e \<Rightarrow> Some (Inl e)
      | Inr c1 \<Rightarrow>
          (case hsv_at dominantHsvs (snd pair) of
             Inl e \<Rightarrow> Some (Inl e)
           | Inr c2 \<Rightarrow>
               do {
                 pairScore \<leftarrow> pairScore_checked c1 c2;
                 accumulate_checked dominantHsvs rest (totalScore + pairScore)
               }))"

definition scoreCentroids_checked :: "nat \<Rightarrow> rgb list \<Rightarrow> (js_error + response) option" where
  "scoreCentroids_checked k dominantRgbs =
     do {
       dominantHsvs \<leftarrow> those (map (\<lambda>(r, g, b). rgbToHsv_checked r g b) dominantRgbs);
       let pairs = colorPairs k;
       if length pairs = 0
       then Some (Inr (Response 200 (ScoreBody
              \<lparr>score = 100, colors = map roundRgb dominantRgbs\<rparr>)))
       else do {
         acc \<leftarrow> accumulate_checked dominantHsvs pairs 0;
         (case acc of
            Inl e \<Rightarrow> Some (Inl e)
          | Inr totalScore \<Rightarrow>
              do {
                final \<leftarrow> js_div totalScore (real (length pairs));
                rounded \<leftarrow> js_div (real_of_int (math_round (final * 100))) 100;
                Some (Inr (Response 200 (ScoreBody
                  \<lparr>score = rounded, colors = map roundRgb dominantRgbs\<rparr>)))
              })
       }
     }"

section \<open>Test doubles for the collaborators\<close>

text \<open>
  Two stand-ins, used to run the handler on concrete requests. The decoder takes the
  uploaded bytes as raw RGBA samples and rejects an empty upload. The clustering
  stand-in returns \<open>k\<close> of the pixels as centroids, starting at an offset taken from
  the seed when there is one and from the ambient entropy \<open>w\<close> otherwise.
\<close>

definition fake_sharp :: "byte list \<Rightarrow> js_error + raw_image" where
  "fake_sharp bs =
     (if bs = [] then Inl (LibraryError ''Input buffer is empty'')
      else Inr \<lparr>data = bs, channels = 4\<rparr>)"

fun pixel_rgb :: "pixel \<Rightarrow> rgb" where
  "pixel_rgb (r, g, b) =
     (case r of None \<Rightarrow> 0 | Some x \<Rightarrow> real (unat x),
      case g of None \<Rightarrow> 0 | Some x \<Rightarrow> real (unat x),
      case b of None \<Rightarrow> 0 | Some x \<Rightarrow> real (unat x))"

definition fake_kmeans ::
  "nat \<Rightarrow> pixel list \<Rightarrow> nat \<Rightarrow> kmeans_options \<Rightarrow> js_error + rgb list" where
  "fake_kmeans w pixels k opts =
     (let offset = (case seed opts of Some s \<Rightarrow> s | None \<Rightarrow> w) mod 2
      in if length pixels < k + offset then Inl (LibraryError ''too few points'')
         else Inr (map pixel_rgb (take k (drop offset pixels))))"

definition fake_env :: "nat \<Rightarrow> collaborators" where
  "fake_env w = \<lparr>sharp_raw = fake_sharp, kmeans = fake_kmeans w\<rparr>"

text \<open>Two raw RGBA buffers of three pixels that differ only in their alpha bytes.\<close>

definition sample_rgba :: "byte list" where
  "sample_rgba = [255, 0, 0, 255, 0, 255, 255, 255, 255, 0, 0, 255]"

definition sample_rgba_faded :: "byte list" where
  "sample_rgba_faded = [255, 0, 0, 7, 0, 255, 255, 0, 255, 0, 0, 99]"

section \<open>Predicates of the statements\<close>




section \<open>Pair enumeration and the mean\<close>

declare pairs_inner.simps [simp del] pairs_outer.simps [simp del] pairScore.simps [simp del]

lemma pairs_inner_eq:
  "pairs_inner idx i j acc = acc @ map (\<lambda>j. (idx ! i, idx ! j)) [j..<length idx]"
proof (induction idx i j acc rule: pairs_inner.induct)
  case (1 idx i j acc)
  show ?case
  proof (cases "j < length idx")
    case True
    then show ?thesis
      using "1.IH" by (subst pairs_inner.simps) (simp add: upt_conv_Cons)
  next
    case False
    then show ?thesis by (subst pairs_inner.simps) simp
  qed
qed

lemma pairs_outer_eq:
  "pairs_outer idx i acc
     = acc @ concat (map (\<lambda>i. map (\<lambda>j. (idx ! i, idx ! j)) [i + 1..<length idx]) [i..<length idx])"
proof (induction idx i acc rule: pairs_outer.induct)
  case (1 idx i acc)
  show ?case
  proof (cases "i < length idx")
    case True
    then show ?thesis
      using "1.IH" by (subst pairs_outer.simps) (simp add: upt_conv_Cons pairs_inner_eq)
  next
    case False
    then show ?thesis by (subst pairs_outer.simps) simp
  qed
qed

lemma colorPairs_eq:
  "colorPairs k = concat (map (\<lambda>i. map (Pair i) [i + 1..<k]) [0..<k])"
  unfolding colorPairs_def colorIndices_def pairs_outer_eq
  by (auto intro!: arg_cong[where f=concat] map_cong)

lemma set_colorPairs: "set (colorPairs k) = {(i, j). i < j \<and> j < k}"
  by (auto simp: colorPairs_eq image_iff)

lemma distinct_tagged_concat:
  "distinct xs \<Longrightarrow> (\<And>x. distinct (f x))
     \<Longrightarrow> distinct (concat (map (\<lambda>x. map (Pair x) (f x)) xs))"
  by (induction xs) (auto simp: distinct_map inj_on_def)

lemma distinct_colorPairs: "distinct (colorPairs k)"
  unfolding colorPairs_eq by (rule distinct_tagged_concat) simp_all

lemma card_pairs_below: "card {(i, j). i < j \<and> j < (k::nat)} = k choose 2"
proof (induction k)
  case 0
  then show ?case by simp
next
  case (Suc k)
  have split: "{(i, j). i < j \<and> j < Suc k} = {(i, j). i < j \<and> j < k} \<union> (\<lambda>i. (i, k)) ` {..<k}"
    by (auto simp: less_Suc_eq)
  have fin: "finite {(i, j). i < j \<and> j < k}"
    by (rule finite_subset[of _ "{..<k} \<times> {..<k}"]) auto
  have "card {(i, j). i < j \<and> j < Suc k} = card {(i, j). i < j \<and> j < k} + card ((\<lambda>i. (i, k)) ` {..<k})"
    unfolding split by (rule card_Un_disjoint) (use fin in auto)
  also have "card ((\<lambda>i. (i, k)) ` {..<k}) = k"
    by (simp add: card_image inj_on_def)
  finally have "card {(i, j). i < j \<and> j < Suc k} = (k choose 2) + k"
    using Suc.IH by simp
  moreover have "Suc k choose 2 = (k choose 2) + k"
    using binomial_Suc_Suc [of k "Suc 0"] by (simp only: numeral_2_eq_2 binomial_1 One_nat_def add.commute)
  ultimately show ?case by simp
qed


lemma length_colorPairs: "length (colorPairs k) = k choose 2"
  using distinct_card [OF distinct_colorPairs, of k]
  by (simp add: set_colorPairs card_pairs_below)

lemma accumulate_in_range:
  "(\<And>i j. (i, j) \<in> set ps \<Longrightarrow> i < length hsvs \<and> j < length hsvs)
     \<Longrightarrow> accumulate hsvs ps tot
           = Inr (tot + sum_list (map (\<lambda>(i, j). pairScore (hsvs ! i) (hsvs ! j)) ps))"
proof (induction ps arbitrary: tot)
  case Nil
  then show ?case by simp
next
  case (Cons p ps)
  obtain i j where p: "p = (i, j)" by (cases p)
  have "i < length hsvs" "j < length hsvs"
    using Cons.prems [of i j] by (simp_all add: p)
  moreover have "accumulate hsvs ps (tot + pairScore (hsvs ! i) (hsvs ! j))
      = Inr (tot + pairScore (hsvs ! i) (hsvs ! j)
             + sum_list (map (\<lambda>(i, j). pairScore (hsvs ! i) (hsvs ! j)) ps))"
    by (rule Cons.IH) (use Cons.prems in auto)
  ultimately show ?case
    by (simp add: p hsv_at_def)
qed

lemma pairScore_weighted:
  "pairScore (h1, s1, v1) (h2, s2, v2)
     = 0.5 * calculateHueScore h1 h2 + 0.3 * \<bar>v1 - v2\<bar> + 0.2 * (100 - \<bar>s1 - s2\<bar>)"
  by (simp add: pairScore.simps Let_def weights_hue_def weights_value_def weights_saturation_def
      calculateValueScore_def calculateSaturationScore_def)

text \<open>
  Claim C1. The pair score is 0.5 times the hue score plus 0.3 times the value score
  plus 0.2 times the saturation score, the value score being \<open>|v1 - v2|\<close> and the
  saturation score \<open>100 - |s1 - s2|\<close>. For \<open>k \<ge> 2\<close> colours the enumerated pairs
  are exactly the \<open>k choose 2\<close> pairs \<open>(i, j)\<close> with \<open>i < j < k\<close>, each once, and the
  full-precision final score is the arithmetic mean of their pair scores.
\<close>

theorem finalScore_mean:
  assumes "2 \<le> k" and "length hsvs = k"
  shows "(\<forall>h1 s1 v1 h2 s2 v2.
            pairScore (h1, s1, v1) (h2, s2, v2)
              = 0.5 * calculateHueScore h1 h2 + 0.3 * calculateValueScore v1 v2
                + 0.2 * calculateSaturationScore s1 s2
            \<and> calculateValueScore v1 v2 = \<bar>v1 - v2\<bar>
            \<and> calculateSaturationScore s1 s2 = 100 - \<bar>s1 - s2\<bar>)
         \<and> distinct (colorPairs k)
         \<and> set (colorPairs k) = {(i, j). i < j \<and> j < k}
         \<and> length (colorPairs k) = k choose 2
         \<and> 0 < k choose 2
         \<and> finalScore hsvs (colorPairs k)
             = Inr ((\<Sum>(i, j) \<in> {(i, j). i < j \<and> j < k}. pairScore (hsvs ! i) (hsvs ! j))
                    / real (k choose 2))"
proof -
  have formula: "\<forall>h1 s1 v1 h2 s2 v2.
            pairScore (h1, s1, v1) (h2, s2, v2)
              = 0.5 * calculateHueScore h1 h2 + 0.3 * calculateValueScore v1 v2
                + 0.2 * calculateSaturationScore s1 s2
            \<and> calculateValueScore v1 v2 = \<bar>v1 - v2\<bar>
            \<and> calculateSaturationScore s1 s2 = 100 - \<bar>s1 - s2\<bar>"
    by (simp add: pairScore.simps Let_def weights_hue_def weights_value_def weights_saturation_def
        calculateValueScore_def calculateSaturationScore_def)
  have "accumulate hsvs (colorPairs k) 0
      = Inr (0 + sum_list (map (\<lambda>(i, j). pairScore (hsvs ! i) (hsvs ! j)) (colorPairs k)))"
    by (rule accumulate_in_range) (use assms in \<open>auto simp: set_colorPairs\<close>)
  also have "sum_list (map (\<lambda>(i, j). pairScore (hsvs ! i) (hsvs ! j)) (colorPairs k))
      = (\<Sum>(i, j) \<in> {(i, j). i < j \<and> j < k}. pairScore (hsvs ! i) (hsvs ! j))"
    using sum_list_distinct_conv_sum_set [OF distinct_colorPairs, of _ k]
    by (simp add: set_colorPairs)
  finally have mean: "finalScore hsvs (colorPairs k)
      = Inr ((\<Sum>(i, j) \<in> {(i, j). i < j \<and> j < k}. pairScore (hsvs ! i) (hsvs ! j))
             / real (k choose 2))"
    by (simp add: finalScore_def length_colorPairs)
  have pos: "0 < k choose 2"
    using assms by (simp add: zero_less_binomial_iff)
  show ?thesis
    using formula mean pos distinct_colorPairs [of k] set_colorPairs [of k]
      length_colorPairs [of k]
    by blast
qed

theorem finalScore_mean_witness:
  "finalScore [(0, 50, 50), (180, 50, 50), (0, 50, 50)] (colorPairs 3)
     = Inr ((\<Sum>(i, j) \<in> {(i, j). i < j \<and> j < (3::nat)}.
               pairScore ([(0, 50, 50), (180, 50, 50), (0, 50, 50)] ! i)
                         ([(0, 50, 50), (180, 50, 50), (0, 50, 50)] ! j))
            / real (3 choose 2))
   \<and> length (colorPairs 3) = 3 choose 2"
proof -
  have k: "(2::nat) \<le> 3" by simp
  have len: "length [(0, 50, 50), (180, 50, 50), (0::real, 50::real, 50::real)] = 3" by simp
  from finalScore_mean [OF k len] show ?thesis by blast
qed

section \<open>Properties of the colour helpers\<close>







section \<open>Pixel extraction\<close>

lemma extract_loop_total:
  "0 < ch \<Longrightarrow> \<exists>pixels'. extract_loop buf ch i pixels = Some pixels'"
proof (induction "length buf - i" arbitrary: i pixels rule: less_induct)
  case less
  show ?case
  proof (cases "i < length buf")
    case True
    then have "length buf - (i + ch) < length buf - i"
      using less.prems by simp
    from less.hyps [OF this less.prems] True show ?thesis
      by (subst extract_loop.simps) simp
  next
    case False
    then show ?thesis by (subst extract_loop.simps) simp
  qed
qed

lemma extract_loop_alpha:
  assumes "length d1 = length d2"
    and "\<And>j. j < length d1 \<Longrightarrow> j mod 4 \<noteq> 3 \<Longrightarrow> d1 ! j = d2 ! j"
    and "i mod 4 = 0"
  shows "extract_loop d1 4 i pixels = extract_loop d2 4 i pixels"
  using assms(3)
proof (induction "length d1 - i" arbitrary: i pixels rule: less_induct)
  case less
  show ?case
  proof (cases "i < length d1")
    case True
    have m: "i mod 4 \<noteq> 3" "(i + 1) mod 4 \<noteq> 3" "(i + 2) mod 4 \<noteq> 3" "(i + 4) mod 4 = 0"
      using less.prems by presburger+
    have same: "buf_at d1 i = buf_at d2 i" "buf_at d1 (i + 1) = buf_at d2 (i + 1)"
      "buf_at d1 (i + 2) = buf_at d2 (i + 2)"
      using assms(1) assms(2) [of i] assms(2) [of "i + 1"] assms(2) [of "i + 2"] m
      by (auto simp: buf_at_def)
    have dec: "length d1 - (i + 4) < length d1 - i"
      using True by simp
    have "extract_loop d1 4 i pixels
        = extract_loop d1 4 (i + 4) (pixels @ [(buf_at d1 i, buf_at d1 (i + 1), buf_at d1 (i + 2))])"
      using True by (subst extract_loop.simps) simp
    also have "\<dots> = extract_loop d2 4 (i + 4) (pixels @ [(buf_at d1 i, buf_at d1 (i + 1), buf_at d1 (i + 2))])"
      by (rule less.hyps [OF dec m(4)])
    also have "\<dots> = extract_loop d2 4 (i + 4) (pixels @ [(buf_at d2 i, buf_at d2 (i + 1), buf_at d2 (i + 2))])"
      by (simp only: same)
    also have "\<dots> = extract_loop d2 4 i pixels"
      using True assms(1) by (subst (2) extract_loop.simps) simp
    finally show ?thesis .
  next
    case False
    then show ?thesis
      using assms(1) by (subst extract_loop.simps, subst (2) extract_loop.simps) simp
  qed
qed

text \<open>
  Claim C10. The extraction loop reads the first three bytes of each pixel and steps by
  the channel count. For two decoded four-channel buffers of the same length that agree
  at every index outside the alpha positions (\<open>j mod 4 \<noteq> 3\<close>), the loop ends with
  the same pixel list, and the rest of the handler returns the same outcome for both.
\<close>

theorem alpha_ignored:
  assumes "channels img1 = 4" and "channels img2 = 4"
    and "length (data img1) = length (data img2)"
    and "\<forall>j < length (data img1). j mod 4 \<noteq> 3 \<longrightarrow> data img1 ! j = data img2 ! j"
  shows "extractPixels img1 = extractPixels img2
         \<and> (\<exists>pixels. extractPixels img1 = Some pixels)
         \<and> analyzeImage env k img1 = analyzeImage env k img2
         \<and> (\<exists>outcome. analyzeImage env k img1 = Some outcome)"
proof -
  have eq: "extractPixels img1 = extractPixels img2"
    unfolding extractPixels_def assms(1,2)
    by (rule extract_loop_alpha) (use assms(3,4) in auto)
  obtain pixels where px: "extractPixels img1 = Some pixels"
    using extract_loop_total [of 4 "data img1" 0 "[]"]
    by (auto simp: extractPixels_def assms(1))
  have px2: "extractPixels img2 = Some pixels"
    using eq px by simp
  show ?thesis
    by (simp add: analyzeImage_def px px2)
qed


theorem alpha_ignored_witness:
  "analyzeImage (fake_env 0) 3 \<lparr>data = sample_rgba, channels = 4\<rparr>
     = analyzeImage (fake_env 0) 3 \<lparr>data = sample_rgba_faded, channels = 4\<rparr>
   \<and> sample_rgba \<noteq> sample_rgba_faded"
proof -
  let ?a = "\<lparr>data = sample_rgba, channels = 4\<rparr>"
  let ?b = "\<lparr>data = sample_rgba_faded, channels = 4\<rparr>"
  have agree: "\<forall>j < length (data ?a). j mod 4 \<noteq> 3 \<longrightarrow> data ?a ! j = data ?b ! j"
  proof (intro allI impI)
    fix j :: nat
    assume "j < length (data ?a)" and off: "j mod 4 \<noteq> 3"
    then have "j < 12" by (simp add: sample_rgba_def)
    then have "j = 0 \<or> j = 1 \<or> j = 2 \<or> j = 3 \<or> j = 4 \<or> j = 5 \<or> j = 6 \<or> j = 7
        \<or> j = 8 \<or> j = 9 \<or> j = 10 \<or> j = 11"
      by arith
    with off show "data ?a ! j = data ?b ! j"
      by (auto simp: sample_rgba_def sample_rgba_faded_def)
  qed
  have "channels ?a = 4" "channels ?b = 4" "length (data ?a) = length (data ?b)"
    by (simp_all add: sample_rgba_def sample_rgba_faded_def)
  from alpha_ignored [OF this agree, of "fake_env 0" 3] show ?thesis
    by (simp add: sample_rgba_def sample_rgba_faded_def)
qed

section \<open>Determinism\<close>

text \<open>
  Claim C9. The handler always passes the seed 42 to the clustering routine. For a
  clustering routine whose result with a given seed does not depend on the ambient
  entropy \<open>w\<close>, two invocations on the same pixels and the same \<open>k\<close> return the same
  outcome, whatever the entropy of each invocation; so do two invocations of the whole
  handler on the same request.
\<close>

theorem seeded_pipeline_deterministic:
  assumes "\<forall>w w' pixels k s. km w pixels k \<lparr>seed = Some s\<rparr> = km w' pixels k \<lparr>seed = Some s\<rparr>"
  shows "analyzePixels (km w1) k pixels = analyzePixels (km w2) k pixels
         \<and> POST_k \<lparr>sharp_raw = decode, kmeans = km w1\<rparr> k req
             = POST_k \<lparr>sharp_raw = decode, kmeans = km w2\<rparr> k req"
proof -
  have "\<And>pixels. km w1 pixels k \<lparr>seed = Some 42\<rparr> = km w2 pixels k \<lparr>seed = Some 42\<rparr>"
    using assms by blast
  then have same: "\<And>pixels. analyzePixels (km w1) k pixels = analyzePixels (km w2) k pixels"
    by (simp add: analyzePixels_def)
  have img: "\<And>img. analyzeImage \<lparr>sharp_raw = decode, kmeans = km w1\<rparr> k img
      = analyzeImage \<lparr>sharp_raw = decode, kmeans = km w2\<rparr> k img"
    by (simp add: analyzeImage_def same split: option.splits)
  have "POST_k \<lparr>sharp_raw = decode, kmeans = km w1\<rparr> k req
      = POST_k \<lparr>sharp_raw = decode, kmeans = km w2\<rparr> k req"
    by (simp add: POST_k_def try_block_def Let_def img split: sum.splits)
  with same show ?thesis by simp
qed

lemma fake_kmeans_seeded:
  "\<forall>w w' pixels k s. fake_kmeans w pixels k \<lparr>seed = Some s\<rparr> = fake_kmeans w' pixels k \<lparr>seed = Some s\<rparr>"
  by (simp add: fake_kmeans_def)

lemma fake_kmeans_unseeded_differs:
  "fake_kmeans 0 [(Some 1, Some 2, Some 3), (Some 4, Some 5, Some 6)] 1 \<lparr>seed = None\<rparr>
     \<noteq> fake_kmeans 1 [(Some 1, Some 2, Some 3), (Some 4, Some 5, Some 6)] 1 \<lparr>seed = None\<rparr>"
  by (simp add: fake_kmeans_def)

theorem seeded_pipeline_deterministic_witness:
  "POST_k (fake_env 0) 3 (Request (Inr [(''file'', FileEntry sample_rgba)]))
     = POST_k (fake_env 1) 3 (Request (Inr [(''file'', FileEntry sample_rgba)]))"
  using seeded_pipeline_deterministic [OF fake_kmeans_seeded, of 0 3 _ 1 fake_sharp
      "Request (Inr [(''file'', FileEntry sample_rgba)])"]
  by (simp add: fake_env_def)

section \<open>Scores of the handler\<close>

lemma colorPairs_3: "colorPairs 3 = [(0, 1), (0, 2), (1, 2)]"
  by code_simp




text \<open>
  Claim C6. Three centroids whose HSV forms have hues 0, 180, 0 and a common saturation
  and value have the pair scores 65, 70, 65 (in enumeration order), the mean \<open>200 / 3\<close>,
  and the returned score 66.67.
\<close>

theorem scenario_b:
  assumes "rgbToHsv r0 g0 b0 = (0, s, v)"
    and "rgbToHsv r1 g1 b1 = (180, s, v)"
    and "rgbToHsv r2 g2 b2 = (0, s, v)"
  shows "map (\<lambda>(i, j). pairScore ([(0, s, v), (180, s, v), (0, s, v)] ! i)
                                ([(0, s, v), (180, s, v), (0, s, v)] ! j)) (colorPairs 3)
           = [65, 70, 65]
         \<and> finalScore [(0, s, v), (180, s, v), (0, s, v)] (colorPairs 3) = Inr (200 / 3)
         \<and> scoreCentroids 3 [(r0, g0, b0), (r1, g1, b1), (r2, g2, b2)]
             = Inr (Response 200 (ScoreBody
                 \<lparr>score = 66.67,
                  colors = map roundRgb [(r0, g0, b0), (r1, g1, b1), (r2, g2, b2)]\<rparr>))"
proof -
  have h180: "calculateHueScore 0 180 = 90" "calculateHueScore 180 0 = 90"
    "calculateHueScore 0 0 = 100"
    by (simp_all add: calculateHueScore_def)
  have p: "pairScore (0, s, v) (180, s, v) = 65" "pairScore (0, s, v) (0, s, v) = 70"
    "pairScore (180, s, v) (0, s, v) = 65"
    by (simp_all add: pairScore_weighted h180)
  have scores: "map (\<lambda>(i, j). pairScore ([(0, s, v), (180, s, v), (0, s, v)] ! i)
                                ([(0, s, v), (180, s, v), (0, s, v)] ! j)) (colorPairs 3)
           = [65, 70, 65]"
    by (simp add: colorPairs_3 p)
  have final: "finalScore [(0, s, v), (180, s, v), (0, s, v)] (colorPairs 3) = Inr (200 / 3)"
    by (simp add: finalScore_def colorPairs_3 hsv_at_def p)
  have ne: "colorPairs 3 \<noteq> []"
    by (simp add: colorPairs_3)
  have "scoreCentroids 3 [(r0, g0, b0), (r1, g1, b1), (r2, g2, b2)]
      = Inr (Response 200 (ScoreBody
          \<lparr>score = 66.67, colors = map roundRgb [(r0, g0, b0), (r1, g1, b1), (r2, g2, b2)]\<rparr>))"
    unfolding scoreCentroids_def
    by (simp add: Let_def assms final math_round_def ne del: roundRgb.simps)
  with scores final show ?thesis by blast
qed

theorem scenario_b_witness:
  "scoreCentroids 3 [(255, 0, 0), (0, 255, 255), (255, 0, 0)]
     = Inr (Response 200 (ScoreBody
         \<lparr>score = 66.67, colors = [(255, 0, 0), (0, 255, 255), (255, 0, 0)]\<rparr>))"
proof -
  have a: "rgbToHsv 255 0 0 = (0, 100, 100)" by (simp add: rgbToHsv_def Let_def)
  have b: "rgbToHsv 0 255 255 = (180, 100, 100)" by (simp add: rgbToHsv_def Let_def)
  from scenario_b [OF a b a] show ?thesis
    by (simp add: math_round_def)
qed


section \<open>No division by zero\<close>

lemma rgbToHsv_checked_eq: "rgbToHsv_checked r g b = Some (rgbToHsv r g b)"
  by (simp add: rgbToHsv_checked_def rgbToHsv_def js_div_def Let_def)

lemma pairScore_checked_eq: "pairScore_checked c1 c2 = Some (pairScore c1 c2)"
  by (cases c1; cases c2)
    (simp add: pairScore.simps calculateValueScore_checked_def calculateSaturationScore_checked_def
      calculateValueScore_def calculateSaturationScore_def js_div_def Let_def)

lemma accumulate_checked_eq:
  "accumulate_checked hsvs ps tot = Some (accumulate hsvs ps tot)"
  by (induction ps arbitrary: tot) (simp_all add: pairScore_checked_eq split: sum.splits)

lemma those_map_Some: "those (map (\<lambda>x. Some (f x)) xs) = Some (map f xs)"
  by (induction xs) simp_all


lemma scoreCentroids_checked_eq:
  "scoreCentroids_checked k dominantRgbs = Some (scoreCentroids k dominantRgbs)"
proof -
  have conv: "map (\<lambda>(r, g, b). rgbToHsv_checked r g b) dominantRgbs
      = map (\<lambda>c. Some ((\<lambda>(r, g, b). rgbToHsv r g b) c)) dominantRgbs"
    by (simp add: rgbToHsv_checked_eq split_def)
  show ?thesis
    unfolding scoreCentroids_checked_def scoreCentroids_def conv those_map_Some
    by (simp add: Let_def accumulate_checked_eq finalScore_def js_div_def split: sum.splits)
qed

text \<open>
  Claim C8. In \<open>rgbToHsv\<close> the saturation is 0 when the maximum channel is 0, the
  division \<open>d / max\<close> (which would be the non-finite \<open>0 / 0\<close>) not being evaluated.
  For every input, so for every input with channels in \<open>[0, 255]\<close>, no division of
  the conversion has a zero divisor, and none of the scoring that follows has one
  either: the conversion and the scoring with explicit divisions always return the
  result of the plain ones.
\<close>

theorem no_division_by_zero:
  "rgbToHsv_checked r g b = Some (rgbToHsv r g b)
   \<and> (max (max (r / 255) (g / 255)) (b / 255) = 0 \<longrightarrow> fst (snd (rgbToHsv r g b)) = 0)
   \<and> js_div 0 0 = None
   \<and> scoreCentroids_checked k dominantRgbs = Some (scoreCentroids k dominantRgbs)"
  by (simp add: rgbToHsv_checked_eq scoreCentroids_checked_eq js_div_def)
    (simp add: rgbToHsv_def Let_def)

theorem no_division_by_zero_witness:
  "rgbToHsv_checked 0 0 0 = Some (0, 0, 0)
   \<and> scoreCentroids_checked 3 [(0, 0, 0), (0, 0, 0), (0, 0, 0)]
       = Some (Inr (Response 200 (ScoreBody \<lparr>score = 70, colors = [(0, 0, 0), (0, 0, 0), (0, 0, 0)]\<rparr>)))"
proof -
  have black: "rgbToHsv 0 0 0 = (0, 0, 0)"
    by (simp add: rgbToHsv_def)
  have sc: "scoreCentroids 3 [(0, 0, 0), (0, 0, 0), (0, 0, 0)]
      = Inr (Response 200 (ScoreBody \<lparr>score = 70, colors = [(0, 0, 0), (0, 0, 0), (0, 0, 0)]\<rparr>))"
    by (simp add: scoreCentroids_def Let_def colorPairs_3 finalScore_def hsv_at_def black
        pairScore_weighted calculateHueScore_def math_round_def)
  from no_division_by_zero [of 0 0 0 3 "[(0, 0, 0), (0, 0, 0), (0, 0, 0)]"] show ?thesis
    by (simp add: black sc)
qed



section \<open>The shape of a successful result\<close>



























section \<open>Error handling\<close>

lemma POST_k_400_iff:
  "POST_k env k req = Some (Response 400 (ErrorBody ''File is required.''))
     \<longleftrightarrow> (\<exists>form. formData req = Inr form \<and> is_falsy (form_get form ''file''))"
proof
  assume "POST_k env k req = Some (Response 400 (ErrorBody ''File is required.''))"
  then obtain out where tb: "try_block env k req = Some out"
    and resp: "case_sum catch_block id out = Response 400 (ErrorBody ''File is required.'')"
    by (auto simp: POST_k_def)
  from resp have out: "out = Inr (Response 400 (ErrorBody ''File is required.''))"
    by (cases out) (simp_all add: catch_block_def)
  from tb show "\<exists>form. formData req = Inr form \<and> is_falsy (form_get form ''file'')"
    unfolding out try_block_def analyzeImage_def analyzePixels_def scoreCentroids_def Let_def
    by (auto split: sum.splits option.splits if_splits)
next
  assume "\<exists>form. formData req = Inr form \<and> is_falsy (form_get form ''file'')"
  then show "POST_k env k req = Some (Response 400 (ErrorBody ''File is required.''))"
    by (auto simp: POST_k_def try_block_def)
qed

lemma POST_k_thrown:
  "try_block env k req = Some (Inl e)
     \<Longrightarrow> POST_k env k req = Some (Response 500 (ErrorBody ''Failed to process image.''))"
  by (simp add: POST_k_def catch_block_def)

lemma POST_k_shapes:
  assumes "POST_k env k req = Some resp"
  shows "resp = Response 400 (ErrorBody ''File is required.'')
         \<or> resp = Response 500 (ErrorBody ''Failed to process image.'')
         \<or> (\<exists>res. resp = Response 200 (ScoreBody res))"
proof -
  from assms obtain out where tb: "try_block env k req = Some out"
    and resp: "resp = case_sum catch_block id out"
    by (auto simp: POST_k_def)
  show ?thesis
  proof (cases out)
    case (Inl e)
    then show ?thesis by (simp add: resp catch_block_def)
  next
    case (Inr r)
    from tb show ?thesis
      unfolding Inr resp try_block_def analyzeImage_def analyzePixels_def scoreCentroids_def Let_def
      by (auto split: sum.splits option.splits if_splits)
  qed
qed

text \<open>
  Claim C7, as the handler implements it. The status-400 response
  \<open>File is required.\<close> is returned exactly when the form data of the request was
  parsed and its \<open>file\<close> entry is absent or the empty string; neither collaborator
  has a part in it. Every thrown error is answered with the one status-500 response
  \<open>Failed to process image.\<close>, which carries nothing of the error: a request body
  that does not parse as form data, a \<open>file\<close> entry that is a non-empty string, a
  decoding failure, a clustering failure, a failure while scoring. Every response is
  the 400 one, the 500 one, or a complete status-200 result.
\<close>

theorem error_surface:
  "(POST_k env k req = Some (Response 400 (ErrorBody ''File is required.''))
      \<longleftrightarrow> (\<exists>form. formData req = Inr form \<and> is_falsy (form_get form ''file'')))
   \<and> (\<forall>e. try_block env k req = Some (Inl e)
          \<longrightarrow> POST_k env k req = Some (Response 500 (ErrorBody ''Failed to process image.'')))
   \<and> (\<forall>e. formData req = Inl e \<longrightarrow> try_block env k req = Some (Inl e))
   \<and> (\<forall>form s. formData req = Inr form \<and> form_get form ''file'' = Some (StringEntry s) \<and> s \<noteq> []
          \<longrightarrow> try_block env k req = Some (Inl TypeError))
   \<and> (\<forall>form bs e. formData req = Inr form \<and> form_get form ''file'' = Some (FileEntry bs)
            \<and> sharp_raw env bs = Inl e
          \<longrightarrow> try_block env k req = Some (Inl e))
   \<and> (\<forall>form bs img pixels e. formData req = Inr form
            \<and> form_get form ''file'' = Some (FileEntry bs)
            \<and> sharp_raw env bs = Inr img \<and> extractPixels img = Some pixels
            \<and> kmeans env pixels k \<lparr>seed = Some 42\<rparr> = Inl e
          \<longrightarrow> try_block env k req = Some (Inl e))
   \<and> (\<forall>form bs img pixels dominantRgbs e. formData req = Inr form
            \<and> form_get form ''file'' = Some (FileEntry bs)
            \<and> sharp_raw env bs = Inr img \<and> extractPixels img = Some pixels
            \<and> kmeans env pixels k \<lparr>seed = Some 42\<rparr> = Inr dominantRgbs
            \<and> scoreCentroids k dominantRgbs = Inl e
          \<longrightarrow> try_block env k req = Some (Inl e))
   \<and> (\<forall>resp. POST_k env k req = Some resp
          \<longrightarrow> resp = Response 400 (ErrorBody ''File is required.'')
              \<or> resp = Response 500 (ErrorBody ''Failed to process image.'')
              \<or> (\<exists>res. resp = Response 200 (ScoreBody res)))"
proof -
  have a: "\<forall>e. formData req = Inl e \<longrightarrow> try_block env k req = Some (Inl e)"
    by (simp add: try_block_def)
  have b: "\<forall>form s. formData req = Inr form \<and> form_get form ''file'' = Some (StringEntry s) \<and> s \<noteq> []
          \<longrightarrow> try_block env k req = Some (Inl TypeError)"
    by (simp add: try_block_def)
  have c: "\<forall>form bs e. formData req = Inr form \<and> form_get form ''file'' = Some (FileEntry bs)
            \<and> sharp_raw env bs = Inl e
          \<longrightarrow> try_block env k req = Some (Inl e)"
    by (simp add: try_block_def)
  have d: "\<forall>form bs img pixels e. formData req = Inr form
            \<and> form_get form ''file'' = Some (FileEntry bs)
            \<and> sharp_raw env bs = Inr img \<and> extractPixels img = Some pixels
            \<and> kmeans env pixels k \<lparr>seed = Some 42\<rparr> = Inl e
          \<longrightarrow> try_block env k req = Some (Inl e)"
    by (simp add: try_block_def analyzeImage_def analyzePixels_def)
  have e: "\<forall>form bs img pixels dominantRgbs e. formData req = Inr form
            \<and> form_get form ''file'' = Some (FileEntry bs)
            \<and> sharp_raw env bs = Inr img \<and> extractPixels img = Some pixels
            \<and> kmeans env pixels k \<lparr>seed = Some 42\<rparr> = Inr dominantRgbs
            \<and> scoreCentroids k dominantRgbs = Inl e
          \<longrightarrow> try_block env k req = Some (Inl e)"
    by (simp add: try_block_def analyzeImage_def analyzePixels_def)
  show ?thesis
    using POST_k_400_iff [of env k req] POST_k_thrown [of env k req]
      POST_k_shapes [of env k req] a b c d e
    by blast
qed

theorem error_surface_witness:
  "POST_k (fake_env 0) 3 (Request (Inr [])) = Some (Response 400 (ErrorBody ''File is required.''))
   \<and> POST_k (fake_env 0) 3 (Request (Inr [(''file'', FileEntry [])]))
       = Some (Response 500 (ErrorBody ''Failed to process image.''))
   \<and> POST_k (fake_env 0) 3 (Request (Inr [(''file'', FileEntry [1, 2, 3, 4])]))
       = Some (Response 500 (ErrorBody ''Failed to process image.''))"
proof -
  have missing: "\<exists>form. formData (Request (Inr [])) = Inr form \<and> is_falsy (form_get form ''file'')"
    by (simp add: form_get_def)
  have decode: "formData (Request (Inr [(''file'', FileEntry [])])) = Inr [(''file'', FileEntry [])]
      \<and> form_get [(''file'', FileEntry [])] ''file'' = Some (FileEntry [])
      \<and> sharp_raw (fake_env 0) [] = Inl (LibraryError ''Input buffer is empty'')"
    by (simp add: form_get_def fake_env_def fake_sharp_def)
  have px: "extractPixels \<lparr>data = [1, 2, 3, 4], channels = 4\<rparr> = Some [(Some 1, Some 2, Some 3)]"
    by (simp add: extractPixels_def extract_loop.simps buf_at_def)
  have cluster: "formData (Request (Inr [(''file'', FileEntry [1, 2, 3, 4])]))
        = Inr [(''file'', FileEntry [1, 2, 3, 4])]
      \<and> form_get [(''file'', FileEntry [1, 2, 3, 4])] ''file'' = Some (FileEntry [1, 2, 3, 4])
      \<and> sharp_raw (fake_env 0) [1, 2, 3, 4] = Inr \<lparr>data = [1, 2, 3, 4], channels = 4\<rparr>
      \<and> extractPixels \<lparr>data = [1, 2, 3, 4], channels = 4\<rparr> = Some [(Some 1, Some 2, Some 3)]
      \<and> kmeans (fake_env 0) [(Some 1, Some 2, Some 3)] 3 \<lparr>seed = Some 42\<rparr>
          = Inl (LibraryError ''too few points'')"
    by (simp add: form_get_def fake_env_def fake_sharp_def px fake_kmeans_def)
  have one: "POST_k (fake_env 0) 3 (Request (Inr []))
      = Some (Response 400 (ErrorBody ''File is required.''))"
    using error_surface [of "fake_env 0" 3 "Request (Inr [])"] missing by blast
  have two: "POST_k (fake_env 0) 3 (Request (Inr [(''file'', FileEntry [])]))
       = Some (Response 500 (ErrorBody ''Failed to process image.''))"
    using error_surface [of "fake_env 0" 3 "Request (Inr [(''file'', FileEntry [])])"] decode
    by blast
  have three: "POST_k (fake_env 0) 3 (Request (Inr [(''file'', FileEntry [1, 2, 3, 4])]))
       = Some (Response 500 (ErrorBody ''Failed to process image.''))"
    using error_surface [of "fake_env 0" 3 "Request (Inr [(''file'', FileEntry [1, 2, 3, 4])])"]
      cluster
    by blast
  from one two three show ?thesis by blast
qed

text \<open>
  Claim C7 as stated also sends a malformed or empty upload to the missing-input
  error. The handler does not: a request whose body does not parse as form data, and an
  upload of an empty file (which the decoder rejects), both end in the \<open>catch\<close>
  clause and get the status-500 response.
\<close>

theorem malformed_upload_counterexample:
  "POST (fake_env 0) (Request (Inl (LibraryError ''Failed to parse body as FormData'')))
     = Some (Response 500 (ErrorBody ''Failed to process image.''))
   \<and> POST (fake_env 0) (Request (Inr [(''file'', FileEntry [])]))
     = Some (Response 500 (ErrorBody ''Failed to process image.''))
   \<and> Response 500 (ErrorBody ''Failed to process image.'')
     \<noteq> Response 400 (ErrorBody ''File is required.'')"
  by (simp add: POST_def POST_k_def try_block_def catch_block_def form_get_def fake_env_def
      fake_sharp_def)


end
